theory Spec2Isabelle
  imports Main
begin

section \<open>Values, exceptions and text formatting\<close>

text \<open>
  The program is \<^verbatim>\<open>main.py\<close>: a decorator \<^verbatim>\<open>type_check\<close> and four ways to declare a
  person with the fields \<^verbatim>\<open>name\<close>, \<^verbatim>\<open>age\<close> and \<^verbatim>\<open>email\<close>. Text is a list of characters,
  an \<^verbatim>\<open>int\<close> is an unbounded integer, and every \<^verbatim>\<open>raise\<close> is an \<open>Inl\<close> result.
\<close>

text \<open>
  A validation error of pydantic or marshmallow carries one entry per rejected field.
  The entry says whether the message was raised by a validator written in \<^verbatim>\<open>main.py\<close>
  (with its text) or by a check of the library's own field type.
\<close>

datatype cause = Raised string | Library_check

datatype error =
    ValueError string
  | TypeError string
  | ReError
  | FrozenInstanceError
  | PydanticValidationError "(string \<times> cause) list"
  | MarshmallowValidationError "(string \<times> cause) list"

text \<open>\<^verbatim>\<open>str(i)\<close> for an \<^verbatim>\<open>int\<close>, which is what \<^verbatim>\<open>f"{self.age}"\<close> inserts: decimal digits,
  most significant first, with a leading minus sign below zero.\<close>

definition digit_char :: "nat \<Rightarrow> char" where
  "digit_char d = ''0123456789'' ! d"

fun str_nat :: "nat \<Rightarrow> string" where
  "str_nat n = (if n < 10 then [digit_char n] else str_nat (n div 10) @ [digit_char (n mod 10)])"

definition str_int :: "int \<Rightarrow> string" where
  "str_int i = (if i < 0 then CHR ''-'' # str_nat (nat (- i)) else str_nat (nat i))"

text \<open>CPython converts an \<^verbatim>\<open>int\<close> to text only up to 4300 decimal digits (the default of
  \<^verbatim>\<open>sys.set_int_max_str_digits\<close>) and raises \<^verbatim>\<open>ValueError\<close> beyond. \<open>str_int\<close> is the text
  within that limit; the general statements about rendering assume it.\<close>

definition within_str_limit :: "int \<Rightarrow> bool" where
  "within_str_limit i = (length (str_nat (nat \<bar>i\<bar>)) \<le> 4300)"

section \<open>The record classes\<close>

record person =
  name :: string
  age :: int
  email :: string

subsection \<open>\<^verbatim>\<open>PersonWithDataclass\<close>\<close>

text \<open>
  \<^verbatim>\<open>name: str\<close>, \<^verbatim>\<open>age: int = field(default=0)\<close>, \<^verbatim>\<open>email: str = field(default='')\<close>.
  An argument left out is \<open>None\<close> here and takes the field's default. The generated
  \<^verbatim>\<open>__init__\<close> stores the three fields and calls \<^verbatim>\<open>__post_init__\<close>, which raises on an
  empty name (\<^verbatim>\<open>not self.name\<close>) and looks at nothing else.
\<close>

definition dataclass_post_init :: "person \<Rightarrow> error + person" where
  "dataclass_post_init self =
     (if name self = [] then Inl (ValueError ''name must not be empty'') else Inr self)"

definition PersonWithDataclass :: "string \<Rightarrow> int option \<Rightarrow> string option \<Rightarrow> error + person" where
  "PersonWithDataclass n a e =
     dataclass_post_init
       \<lparr>name = n,
        age = (case a of None \<Rightarrow> 0 | Some a' \<Rightarrow> a'),
        email = (case e of None \<Rightarrow> [] | Some e' \<Rightarrow> e')\<rparr>"

text \<open>\<^verbatim>\<open>f"{self.name} {self.age} {self.email}"\<close>, the body of every \<^verbatim>\<open>__str__\<close>.\<close>

definition fields_joined :: "person \<Rightarrow> string" where
  "fields_joined self = name self @ '' '' @ str_int (age self) @ '' '' @ email self"

definition dataclass_str :: "person \<Rightarrow> string" where
  "dataclass_str self = fields_joined self"

definition dataclass_repr :: "person \<Rightarrow> string" where
  "dataclass_repr self = ''PersonWithDataclass'' @ ''('' @ fields_joined self @ '')''"

text \<open>
  \<^verbatim>\<open>@dataclass\<close> is applied without \<^verbatim>\<open>frozen=True\<close>, \<^verbatim>\<open>@attr.s\<close> without \<^verbatim>\<open>frozen=True\<close>, and
  the pydantic model sets no \<^verbatim>\<open>model_config\<close>: an attribute assignment on an instance
  is the plain one. It stores the value and runs no validator (\<^verbatim>\<open>__post_init__\<close> and the
  validators run at construction only). A frozen class would raise instead.
\<close>

datatype assignment = Set_name string | Set_age int | Set_email string

fun assign :: "person \<Rightarrow> assignment \<Rightarrow> person" where
  "assign self (Set_name v) = self\<lparr>name := v\<rparr>"
| "assign self (Set_age v) = self\<lparr>age := v\<rparr>"
| "assign self (Set_email v) = self\<lparr>email := v\<rparr>"

definition setattr :: "bool \<Rightarrow> person \<Rightarrow> assignment \<Rightarrow> error + person" where
  "setattr frozen self x = (if frozen then Inl FrozenInstanceError else Inr (assign self x))"

definition dataclass_frozen :: bool where
  "dataclass_frozen = False"

definition dataclass_setattr :: "person \<Rightarrow> assignment \<Rightarrow> error + person" where
  "dataclass_setattr = setattr dataclass_frozen"

subsection \<open>\<^verbatim>\<open>PersonWithPydantic\<close>\<close>

text \<open>
  \<^verbatim>\<open>name: str\<close> with the validator \<^verbatim>\<open>name_must_not_be_empty\<close>, \<^verbatim>\<open>age: PositiveInt\<close>
  (greater than 0) and \<^verbatim>\<open>email: EmailStr\<close>. The address grammar of \<^verbatim>\<open>EmailStr\<close> belongs to
  the library and is a parameter: it gives the address to store (the library may return
  a normalised one), or \<open>None\<close> when it rejects the text. Pydantic validates every field
  and raises one \<^verbatim>\<open>ValidationError\<close> listing all rejected fields, in field order.
\<close>

definition name_must_not_be_empty :: "string \<Rightarrow> error + string" where
  "name_must_not_be_empty v =
     (if v = [] then Inl (ValueError ''name must not be empty'') else Inr v)"

definition pydantic_name_errors :: "string \<Rightarrow> (string \<times> cause) list" where
  "pydantic_name_errors n =
     (case name_must_not_be_empty n of
        Inl (ValueError m) \<Rightarrow> [(''name'', Raised m)]
      | Inl _ \<Rightarrow> [(''name'', Library_check)]
      | Inr _ \<Rightarrow> [])"

definition PositiveInt_errors :: "int \<Rightarrow> (string \<times> cause) list" where
  "PositiveInt_errors a = (if 0 < a then [] else [(''age'', Library_check)])"

definition EmailStr_errors :: "(string \<Rightarrow> string option) \<Rightarrow> string \<Rightarrow> (string \<times> cause) list" where
  "EmailStr_errors EmailStr e =
     (case EmailStr e of None \<Rightarrow> [(''email'', Library_check)] | Some _ \<Rightarrow> [])"

definition PersonWithPydantic ::
  "(string \<Rightarrow> string option) \<Rightarrow> string \<Rightarrow> int \<Rightarrow> string \<Rightarrow> error + person" where
  "PersonWithPydantic EmailStr n a e =
     (let errs = pydantic_name_errors n @ PositiveInt_errors a @ EmailStr_errors EmailStr e
      in case (errs, EmailStr e) of
           ([], Some e') \<Rightarrow> Inr \<lparr>name = n, age = a, email = e'\<rparr>
         | _ \<Rightarrow> Inl (PydanticValidationError errs))"

definition pydantic_str :: "person \<Rightarrow> string" where
  "pydantic_str self = fields_joined self"

definition pydantic_repr :: "person \<Rightarrow> string" where
  "pydantic_repr self = ''PersonWithPydantic'' @ ''('' @ fields_joined self @ '')''"

definition pydantic_frozen :: bool where
  "pydantic_frozen = False"

definition pydantic_setattr :: "person \<Rightarrow> assignment \<Rightarrow> error + person" where
  "pydantic_setattr = setattr pydantic_frozen"

subsection \<open>\<^verbatim>\<open>PersonWithAttrs\<close>\<close>

text \<open>
  \<^verbatim>\<open>name = attr.ib(type=str)\<close>, \<^verbatim>\<open>age = attr.ib(type=int, default=0)\<close>,
  \<^verbatim>\<open>email = attr.ib(type=str, default='')\<close>; \<^verbatim>\<open>type=\<close> is not enforced. The generated
  \<^verbatim>\<open>__init__\<close> stores the fields and runs the only validator, \<^verbatim>\<open>validate_name\<close>.
\<close>

definition validate_name :: "string \<Rightarrow> error + unit" where
  "validate_name v = (if v = [] then Inl (ValueError ''name must not be empty'') else Inr ())"

definition PersonWithAttrs :: "string \<Rightarrow> int option \<Rightarrow> string option \<Rightarrow> error + person" where
  "PersonWithAttrs n a e =
     (case validate_name n of
        Inl err \<Rightarrow> Inl err
      | Inr _ \<Rightarrow>
          Inr \<lparr>name = n,
               age = (case a of None \<Rightarrow> 0 | Some a' \<Rightarrow> a'),
               email = (case e of None \<Rightarrow> [] | Some e' \<Rightarrow> e')\<rparr>)"

definition attrs_str :: "person \<Rightarrow> string" where
  "attrs_str self = fields_joined self"

definition attrs_frozen :: bool where
  "attrs_frozen = False"

definition attrs_setattr :: "person \<Rightarrow> assignment \<Rightarrow> error + person" where
  "attrs_setattr = setattr attrs_frozen"

text \<open>
  \<^verbatim>\<open>repr\<close> of a \<^verbatim>\<open>str\<close>: in single quotes, or in double quotes when the text has a single
  quote and no double quote; the quote character and the backslash are escaped, tab,
  newline and carriage return are written \<^verbatim>\<open>\t\<close>, \<^verbatim>\<open>\n\<close>, \<^verbatim>\<open>\r\<close>, and any other character
  that is not printable is written \<^verbatim>\<open>\xhh\<close>. Characters are code points below 256.
\<close>

definition hex_digit :: "nat \<Rightarrow> char" where
  "hex_digit d = ''0123456789abcdef'' ! d"

definition printable :: "char \<Rightarrow> bool" where
  "printable c = (let k = (of_char c :: nat) in (32 \<le> k \<and> k < 127) \<or> (161 \<le> k \<and> k \<noteq> 173))"

definition repr_quote :: "string \<Rightarrow> char" where
  "repr_quote s = (if CHR 0x27 \<in> set s \<and> CHR 0x22 \<notin> set s then CHR 0x22 else CHR 0x27)"

definition repr_char :: "char \<Rightarrow> char \<Rightarrow> string" where
  "repr_char q c =
     (if c = q \<or> c = CHR 0x5C then [CHR 0x5C, c]
      else if c = CHR 0x09 then [CHR 0x5C, CHR ''t'']
      else if c = CHR 0x0A then [CHR 0x5C, CHR ''n'']
      else if c = CHR 0x0D then [CHR 0x5C, CHR ''r'']
      else if printable c then [c]
      else [CHR 0x5C, CHR ''x'', hex_digit (of_char c div 16), hex_digit (of_char c mod 16)])"

definition repr_str :: "string \<Rightarrow> string" where
  "repr_str s = (let q = repr_quote s in q # concat (map (repr_char q) s) @ [q])"

text \<open>
  The class defines \<^verbatim>\<open>__str__\<close> only. \<^verbatim>\<open>@attr.s\<close> is applied with its default \<^verbatim>\<open>repr\<close>
  setting, so \<^verbatim>\<open>__repr__\<close> is the one attrs generates: the class name and every attribute
  as \<^verbatim>\<open>name=repr(value)\<close>, separated by a comma and a space.
\<close>

definition attrs_repr :: "person \<Rightarrow> string" where
  "attrs_repr self =
     ''PersonWithAttrs'' @ ''('' @ ''name='' @ repr_str (name self) @ '', age='' @ str_int (age self)
       @ '', email='' @ repr_str (email self) @ '')''"

subsection \<open>\<^verbatim>\<open>PersonWithMarshmallow\<close>\<close>

text \<open>
  A marshmallow \<^verbatim>\<open>Schema\<close>: \<^verbatim>\<open>name = fields.Str(required=True, validate=validate.Length(min=1))\<close>,
  \<^verbatim>\<open>age = fields.Integer(required=True)\<close>, \<^verbatim>\<open>email = fields.Email(required=True)\<close>, and the
  schema validator \<^verbatim>\<open>validate_age\<close>. The address grammar of \<^verbatim>\<open>fields.Email\<close> belongs to the
  library and is a parameter. \<^verbatim>\<open>load\<close> checks the fields first and collects their errors;
  a schema validator declared with a bare \<^verbatim>\<open>@validates_schema\<close> runs only when no field
  was rejected. The class has no \<^verbatim>\<open>@post_load\<close> hook, so what \<^verbatim>\<open>load\<close> returns is the plain
  \<^verbatim>\<open>dict\<close> of the loaded values, in the order the fields are declared.
\<close>

datatype pyval = StrV string | IntV int

definition validate_age :: "int \<Rightarrow> error + unit" where
  "validate_age a =
     (if a \<le> 0 then Inl (MarshmallowValidationError [(''_schema'', Raised ''age must be positive'')])
      else Inr ())"

definition marshmallow_field_errors :: "(string \<Rightarrow> bool) \<Rightarrow> string \<Rightarrow> string \<Rightarrow> (string \<times> cause) list" where
  "marshmallow_field_errors Email n e =
     (if length n < 1 then [(''name'', Library_check)] else [])
       @ (if Email e then [] else [(''email'', Library_check)])"

definition PersonWithMarshmallow_load ::
  "(string \<Rightarrow> bool) \<Rightarrow> string \<Rightarrow> int \<Rightarrow> string \<Rightarrow> error + (string \<times> pyval) list" where
  "PersonWithMarshmallow_load Email n a e =
     (case marshmallow_field_errors Email n e of
        [] \<Rightarrow>
          (case validate_age a of
             Inl err \<Rightarrow> Inl err
           | Inr _ \<Rightarrow> Inr [(''name'', StrV n), (''age'', IntV a), (''email'', StrV e)])
      | errs \<Rightarrow> Inl (MarshmallowValidationError errs))"

text \<open>
  \<^verbatim>\<open>print(person_with_marshmallow)\<close> prints \<^verbatim>\<open>str\<close> of that \<^verbatim>\<open>dict\<close>, which is its \<^verbatim>\<open>repr\<close>:
  \<^verbatim>\<open>{key: value, ...}\<close> with \<^verbatim>\<open>repr\<close> of every key and value. The \<^verbatim>\<open>__str__\<close> and \<^verbatim>\<open>__repr__\<close>
  written in the schema class belong to schema objects and are never applied to it.
\<close>

fun py_repr :: "pyval \<Rightarrow> string" where
  "py_repr (StrV s) = repr_str s"
| "py_repr (IntV i) = str_int i"

fun join :: "string \<Rightarrow> string list \<Rightarrow> string" where
  "join sep [] = []"
| "join sep [x] = x"
| "join sep (x # y # ys) = x @ sep @ join sep (y # ys)"

definition dict_repr :: "(string \<times> pyval) list \<Rightarrow> string" where
  "dict_repr d = ''{'' @ join '', '' (map (\<lambda>(k, v). repr_str k @ '': '' @ py_repr v) d) @ ''}''"

definition dict_str :: "(string \<times> pyval) list \<Rightarrow> string" where
  "dict_str d = dict_repr d"

section \<open>The decorator \<^verbatim>\<open>type_check\<close>\<close>

text \<open>
  \<^verbatim>\<open>type_check(follows=None, *types)\<close> returns a decorator, and the decorated function is
  \<^verbatim>\<open>wrapper(*args, **kwargs)\<close>. \<^verbatim>\<open>isinstance\<close> and \<^verbatim>\<open>re.match\<close> are parameters; \<^verbatim>\<open>re.match\<close>
  returns whether the pattern matches at the start of the text, or raises \<^verbatim>\<open>re.error\<close>
  (\<open>ReError\<close>) on a pattern that does not compile. The wrapped function \<open>func\<close> takes the positional arguments, the keyword
  arguments and the state of the world, and returns its result (or exception) with the new
  state, so that a run of \<open>func\<close> is visible in the state.
\<close>

definition types_match :: "('v \<Rightarrow> 't \<Rightarrow> bool) \<Rightarrow> 'v list \<Rightarrow> 't list \<Rightarrow> bool" where
  "types_match isinstance args types = list_all (\<lambda>(arg, typ). isinstance arg typ) (zip args types)"

definition wrapper ::
  "('v \<Rightarrow> 't \<Rightarrow> bool) \<Rightarrow> (string \<Rightarrow> string \<Rightarrow> error + bool) \<Rightarrow> string option \<Rightarrow> 't list \<Rightarrow> string
     \<Rightarrow> ('v list \<Rightarrow> 'k \<Rightarrow> 's \<Rightarrow> (error + 'r) \<times> 's) \<Rightarrow> 'v list \<Rightarrow> 'k \<Rightarrow> 's \<Rightarrow> (error + 'r) \<times> 's" where
  "wrapper isinstance re_match follows types func_name func args kwargs s =
     (if \<not> types_match isinstance args types
      then (Inl (TypeError ''Arguments must match specified types''), s)
      else
        (case follows of
           None \<Rightarrow> (Inl (ValueError ''Function name must match follows pattern''), s)
         | Some pat \<Rightarrow>
             if pat = [] then (Inl (ValueError ''Function name must match follows pattern''), s)
             else
               (case re_match pat func_name of
                  Inl err \<Rightarrow> (Inl err, s)
                | Inr False \<Rightarrow> (Inl (ValueError ''Function name must match follows pattern''), s)
                | Inr True \<Rightarrow> func args kwargs s)))"

text \<open>\<^verbatim>\<open>type_check(follows, *types)(func)\<close>. With \<^verbatim>\<open>follows\<close> left out no type can be given,
  since \<^verbatim>\<open>*types\<close> takes the positional arguments after it: \<^verbatim>\<open>type_check()\<close> has
  \<^verbatim>\<open>follows = None\<close> and \<^verbatim>\<open>types = ()\<close>.\<close>

definition type_check ::
  "('v \<Rightarrow> 't \<Rightarrow> bool) \<Rightarrow> (string \<Rightarrow> string \<Rightarrow> error + bool) \<Rightarrow> string option \<Rightarrow> 't list \<Rightarrow> string
     \<Rightarrow> ('v list \<Rightarrow> 'k \<Rightarrow> 's \<Rightarrow> (error + 'r) \<times> 's) \<Rightarrow> 'v list \<Rightarrow> 'k \<Rightarrow> 's \<Rightarrow> (error + 'r) \<times> 's" where
  "type_check isinstance re_match follows types func_name func =
     wrapper isinstance re_match follows types func_name func"

text \<open>A small universe of values and classes for concrete calls: \<^verbatim>\<open>bool\<close> is a subclass
  of \<^verbatim>\<open>int\<close>, and everything is an \<^verbatim>\<open>object\<close>.\<close>

datatype arg = Int_arg int | Str_arg string | Bool_arg bool | None_arg

datatype cls = Int_cls | Str_cls | Bool_cls | Object_cls

fun py_isinstance :: "arg \<Rightarrow> cls \<Rightarrow> bool" where
  "py_isinstance _ Object_cls = True"
| "py_isinstance (Int_arg _) Int_cls = True"
| "py_isinstance (Bool_arg _) Int_cls = True"
| "py_isinstance (Bool_arg _) Bool_cls = True"
| "py_isinstance (Str_arg _) Str_cls = True"
| "py_isinstance _ _ = False"

text \<open>A pattern matcher for concrete calls: the pattern is taken as literal text, which
  \<^verbatim>\<open>re.match\<close> finds exactly when the function name starts with it.\<close>

definition literal_match :: "string \<Rightarrow> string \<Rightarrow> error + bool" where
  "literal_match pat text = Inr (take (length pat) text = pat)"

text \<open>A function to wrap in concrete calls: it counts its runs in the state and returns
  the number of positional arguments.\<close>

definition counting_func :: "arg list \<Rightarrow> (string \<times> arg) list \<Rightarrow> nat \<Rightarrow> (error + nat) \<times> nat" where
  "counting_func args kwargs s = (Inr (length args), Suc s)"

section \<open>The vocabulary of the specification\<close>

text \<open>
  The specification names three failures. An exception counts as the named failure when
  it reports the field: the \<^verbatim>\<open>ValueError\<close> with the source's message for the name, an entry
  for the field in a pydantic or marshmallow error, and the message of \<^verbatim>\<open>validate_age\<close>
  under marshmallow's schema-level key.
\<close>

fun is_EmptyNameError :: "error \<Rightarrow> bool" where
  "is_EmptyNameError (ValueError m) = (m = ''name must not be empty'')"
| "is_EmptyNameError (PydanticValidationError errs) = (''name'' \<in> set (map fst errs))"
| "is_EmptyNameError (MarshmallowValidationError errs) = (''name'' \<in> set (map fst errs))"
| "is_EmptyNameError _ = False"

fun is_NonPositiveAgeError :: "error \<Rightarrow> bool" where
  "is_NonPositiveAgeError (PydanticValidationError errs) = (''age'' \<in> set (map fst errs))"
| "is_NonPositiveAgeError (MarshmallowValidationError errs) =
     ((''_schema'', Raised ''age must be positive'') \<in> set errs)"
| "is_NonPositiveAgeError _ = False"

fun is_InvalidEmailFormatError :: "error \<Rightarrow> bool" where
  "is_InvalidEmailFormatError (PydanticValidationError errs) = (''email'' \<in> set (map fst errs))"
| "is_InvalidEmailFormatError (MarshmallowValidationError errs) = (''email'' \<in> set (map fst errs))"
| "is_InvalidEmailFormatError _ = False"

text \<open>Whitespace-only text: not empty, and made of blanks, tabs, line feeds, carriage
  returns, vertical tabs and form feeds.\<close>

definition whitespace_only :: "string \<Rightarrow> bool" where
  "whitespace_only s =
     (s \<noteq> [] \<and> list_all (\<lambda>c. c \<in> set [CHR 0x20, CHR 0x09, CHR 0x0A, CHR 0x0D, CHR 0x0B, CHR 0x0C]) s)"

text \<open>
  Modelled from the spec: the email grammar of pydantic's \<^verbatim>\<open>EmailStr\<close> and of marshmallow's
  \<^verbatim>\<open>fields.Email\<close> is library code outside the repository. Section 4.1 describes the
  accepted shape as a local part, "@", and a domain containing a dot. It is used only
  to run the record classes on concrete inputs; \<open>EmailStr_shape\<close> is the same check in
  the form of \<^verbatim>\<open>EmailStr\<close>, returning the address unchanged.
\<close>

definition email_shape :: "string \<Rightarrow> bool" where
  "email_shape e =
     (let local_part = takeWhile (\<lambda>c. c \<noteq> CHR ''@'') e;
          rest = dropWhile (\<lambda>c. c \<noteq> CHR ''@'') e
      in local_part \<noteq> [] \<and> rest \<noteq> [] \<and> CHR ''.'' \<in> set (tl rest))"

definition EmailStr_shape :: "string \<Rightarrow> string option" where
  "EmailStr_shape e = (if email_shape e then Some e else None)"

section \<open>Unfolding rules\<close>

lemmas render_defs = fields_joined_def dataclass_str_def pydantic_str_def attrs_str_def
  dataclass_repr_def pydantic_repr_def

lemmas dataclass_defs = PersonWithDataclass_def dataclass_post_init_def

lemmas attrs_defs = PersonWithAttrs_def validate_name_def

lemmas pydantic_defs = PersonWithPydantic_def pydantic_name_errors_def name_must_not_be_empty_def
  PositiveInt_errors_def EmailStr_errors_def

lemmas marshmallow_defs = PersonWithMarshmallow_load_def marshmallow_field_errors_def validate_age_def

lemmas repr_defs = repr_str_def repr_quote_def repr_char_def printable_def str_int_def
  digit_char_def hex_digit_def

section \<open>Rendering of a created record\<close>

text \<open>
  In the three classes whose instances are persons, a valid triple is accepted and
  \<^verbatim>\<open>__str__\<close> gives the three values joined by blanks, in the order name, age, email. For
  pydantic the address is the one \<^verbatim>\<open>EmailStr\<close> hands back, so the text holds the address as
  written when \<^verbatim>\<open>EmailStr\<close> returns it unchanged. The age is within the limit of the
  conversion to text.
\<close>

lemma str_of_created_record:
  assumes "n \<noteq> []" and "0 < a" and "EmailStr e = Some e" and "within_str_limit a"
  shows "\<exists>r. PersonWithDataclass n (Some a) (Some e) = Inr r
             \<and> dataclass_str r = n @ '' '' @ str_int a @ '' '' @ e"
    and "\<exists>r. PersonWithPydantic EmailStr n a e = Inr r
             \<and> pydantic_str r = n @ '' '' @ str_int a @ '' '' @ e"
    and "\<exists>r. PersonWithAttrs n (Some a) (Some e) = Inr r
             \<and> attrs_str r = n @ '' '' @ str_int a @ '' '' @ e"
  using assms by (simp_all add: dataclass_defs attrs_defs pydantic_defs render_defs)

text \<open>
  Claim C1 (every valid triple is accepted, and the display text of the result is
  \<^verbatim>\<open>"name age email"\<close>) fails in the marshmallow variant on the program's own sample call.
  \<^verbatim>\<open>PersonWithMarshmallow().load({"name": "John", "age": 30, "email": "X7Q9u@example.com"})\<close>
  succeeds, but what it returns is a \<^verbatim>\<open>dict\<close>, and \<^verbatim>\<open>print\<close> shows the text of the \<^verbatim>\<open>dict\<close>
  and not \<^verbatim>\<open>John 30 X7Q9u@example.com\<close>.
\<close>

theorem marshmallow_print_of_loaded_person:
  "PersonWithMarshmallow_load email_shape ''John'' 30 ''X7Q9u@example.com''
     = Inr [(''name'', StrV ''John''), (''age'', IntV 30), (''email'', StrV ''X7Q9u@example.com'')]
   \<and> dict_str [(''name'', StrV ''John''), (''age'', IntV 30), (''email'', StrV ''X7Q9u@example.com'')]
     = ''{'name': 'John', 'age': 30, 'email': 'X7Q9u@example.com'}''
   \<and> dict_str [(''name'', StrV ''John''), (''age'', IntV 30), (''email'', StrV ''X7Q9u@example.com'')]
     \<noteq> ''John 30 X7Q9u@example.com''"
  by (simp add: marshmallow_defs email_shape_def dict_str_def dict_repr_def repr_defs Let_def)

section \<open>Rejected inputs\<close>

text \<open>
  Claim C2 as stated (every input with \<^verbatim>\<open>age <= 0\<close> fails) does not hold: the dataclass
  accepts the boundary case \<^verbatim>\<open>("John", 0, "a@example.com")\<close>. Its \<^verbatim>\<open>age\<close> defaults to 0 and
  \<^verbatim>\<open>__post_init__\<close> checks the name only.
\<close>

theorem dataclass_accepts_age_zero:
  "PersonWithDataclass ''John'' (Some 0) (Some ''a@example.com'')
     = Inr \<lparr>name = ''John'', age = 0, email = ''a@example.com''\<rparr>"
  by (simp add: dataclass_defs)

text \<open>
  Claim C2, amended: in the pydantic and marshmallow variants every input with
  \<^verbatim>\<open>age <= 0\<close> fails and no record is produced. The pydantic error always reports the
  age. The marshmallow error is the one of \<^verbatim>\<open>validate_age\<close> exactly when the name is not
  empty and the address passes the field check; otherwise it reports those fields only.
\<close>

theorem nonpositive_age_rejected_by_pydantic_and_marshmallow:
  assumes "a \<le> 0"
  shows "(\<exists>err. PersonWithPydantic EmailStr n a e = Inl err \<and> is_NonPositiveAgeError err)
       \<and> (\<exists>err. PersonWithMarshmallow_load Email n a e = Inl err
               \<and> (is_NonPositiveAgeError err \<longleftrightarrow> n \<noteq> [] \<and> Email e))"
  using assms
  by (auto simp add: pydantic_defs marshmallow_defs split: option.splits list.splits sum.splits)

theorem nonpositive_age_rejected_witness:
  "(0::int) \<le> 0
   \<and> (\<exists>err. PersonWithPydantic EmailStr_shape ''John'' 0 ''a@example.com'' = Inl err
            \<and> is_NonPositiveAgeError err)
   \<and> ''John'' \<noteq> [] \<and> email_shape ''a@example.com''
   \<and> (\<exists>err. PersonWithMarshmallow_load email_shape ''John'' 0 ''a@example.com'' = Inl err
            \<and> is_NonPositiveAgeError err)"
  using nonpositive_age_rejected_by_pydantic_and_marshmallow
          [of 0 EmailStr_shape "''John''" "''a@example.com''" email_shape]
  by (simp add: email_shape_def)

text \<open>
  Claim C3 as stated (an empty or whitespace-only name fails) does not hold: every name
  check in the source is \<^verbatim>\<open>not value\<close> (or a minimum length of 1), which only the empty
  text fails. The dataclass accepts the name made of one blank.
\<close>

theorem dataclass_accepts_whitespace_name:
  "whitespace_only '' ''
   \<and> PersonWithDataclass '' '' (Some 30) (Some ''a@example.com'')
       = Inr \<lparr>name = '' '', age = 30, email = ''a@example.com''\<rparr>"
  by (simp add: whitespace_only_def dataclass_defs)

text \<open>
  Claim C3, amended: in each of the four variants, construction fails with the empty-name
  error exactly when the name is the empty text, whatever the age and the address are.
\<close>

theorem empty_name_rejected:
  "((\<exists>err. PersonWithDataclass n a e = Inl err \<and> is_EmptyNameError err) \<longleftrightarrow> n = [])
   \<and> ((\<exists>err. PersonWithPydantic EmailStr n a' e' = Inl err \<and> is_EmptyNameError err) \<longleftrightarrow> n = [])
   \<and> ((\<exists>err. PersonWithMarshmallow_load Email n a' e' = Inl err \<and> is_EmptyNameError err) \<longleftrightarrow> n = [])
   \<and> ((\<exists>err. PersonWithAttrs n a e = Inl err \<and> is_EmptyNameError err) \<longleftrightarrow> n = [])"
  by (auto simp add: dataclass_defs pydantic_defs marshmallow_defs attrs_defs
        split: option.splits list.splits sum.splits if_splits)

text \<open>
  Claim C4 as stated (an address without "@" or without a dotted domain fails) does not
  hold: the dataclass stores any text as the address, \<^verbatim>\<open>not-an-email\<close> included. Its
  \<^verbatim>\<open>email\<close> defaults to the empty text and no check looks at it.
\<close>

theorem dataclass_accepts_malformed_email:
  "PersonWithDataclass ''John'' (Some 30) (Some ''not-an-email'')
     = Inr \<lparr>name = ''John'', age = 30, email = ''not-an-email''\<rparr>"
  by (simp add: dataclass_defs)

text \<open>Whatever the address grammar of the library is, the pydantic and marshmallow
  variants fail with an error that reports the address exactly when that grammar rejects
  it.\<close>

lemma email_error_iff_library_rejects:
  "((\<exists>err. PersonWithPydantic EmailStr n a e = Inl err \<and> is_InvalidEmailFormatError err)
      \<longleftrightarrow> EmailStr e = None)
   \<and> ((\<exists>err. PersonWithMarshmallow_load Email n a e = Inl err \<and> is_InvalidEmailFormatError err)
      \<longleftrightarrow> \<not> Email e)"
  by (auto simp add: pydantic_defs marshmallow_defs
        split: option.splits list.splits sum.splits if_splits)

text \<open>An address of the shape the specification describes splits at an "@" into a local
  part and a domain that contains a dot.\<close>

lemma email_shape_has_dotted_domain:
  assumes "email_shape e"
  shows "\<exists>l d. e = l @ CHR ''@'' # d \<and> CHR ''.'' \<in> set d"
proof -
  let ?P = "\<lambda>c. c \<noteq> CHR ''@''"
  from assms have rest: "dropWhile ?P e \<noteq> []" and dot: "CHR ''.'' \<in> set (tl (dropWhile ?P e))"
    by (simp_all add: email_shape_def Let_def)
  from rest have "hd (dropWhile ?P e) = CHR ''@''"
    using hd_dropWhile [of ?P e] by simp
  with rest have "dropWhile ?P e = CHR ''@'' # tl (dropWhile ?P e)"
    by (cases "dropWhile ?P e") simp_all
  then have "e = takeWhile ?P e @ CHR ''@'' # tl (dropWhile ?P e)"
    using takeWhile_dropWhile_id [of ?P e] by simp
  with dot show ?thesis by blast
qed

lemma no_dotted_domain_example:
  "\<not> (\<exists>l d. ''a@bc'' = l @ CHR ''@'' # d \<and> CHR ''.'' \<in> set d)"
proof
  assume "\<exists>l d. ''a@bc'' = l @ CHR ''@'' # d \<and> CHR ''.'' \<in> set d"
  then obtain l d where eq: "''a@bc'' = l @ CHR ''@'' # d" and dot: "CHR ''.'' \<in> set d"
    by blast
  from eq have "set ''a@bc'' = set (l @ CHR ''@'' # d)" by simp
  with dot have "CHR ''.'' \<in> set ''a@bc''" by simp
  then show False by simp
qed

text \<open>
  Claim C4, amended: in the pydantic and marshmallow variants, every input whose address
  has no "@", or cannot be split at an "@" so that the domain after it contains a dot,
  fails with an error that reports the address, and no record is produced, whatever the
  name and the age are. The address check is the one the specification describes.
\<close>

theorem malformed_email_rejected_by_pydantic_and_marshmallow:
  assumes "CHR ''@'' \<notin> set e \<or> \<not> (\<exists>l d. e = l @ CHR ''@'' # d \<and> CHR ''.'' \<in> set d)"
  shows "(\<exists>err. PersonWithPydantic EmailStr_shape n a e = Inl err
               \<and> is_InvalidEmailFormatError err)
       \<and> (\<exists>err. PersonWithMarshmallow_load email_shape n a e = Inl err
               \<and> is_InvalidEmailFormatError err)"
proof -
  from assms have "\<not> (\<exists>l d. e = l @ CHR ''@'' # d \<and> CHR ''.'' \<in> set d)"
    by auto
  then have "\<not> email_shape e"
    using email_shape_has_dotted_domain by blast
  then show ?thesis
    using email_error_iff_library_rejects [of EmailStr_shape n a e email_shape]
    by (simp add: EmailStr_shape_def)
qed

theorem malformed_email_rejected_witness:
  "CHR ''@'' \<notin> set ''not-an-email''
   \<and> (\<exists>err. PersonWithPydantic EmailStr_shape ''John'' 30 ''not-an-email'' = Inl err
            \<and> is_InvalidEmailFormatError err)
   \<and> (\<exists>err. PersonWithMarshmallow_load email_shape ''John'' 30 ''not-an-email'' = Inl err
            \<and> is_InvalidEmailFormatError err)
   \<and> \<not> (\<exists>l d. ''a@bc'' = l @ CHR ''@'' # d \<and> CHR ''.'' \<in> set d)
   \<and> (\<exists>err. PersonWithPydantic EmailStr_shape ''John'' 30 ''a@bc'' = Inl err
            \<and> is_InvalidEmailFormatError err)
   \<and> (\<exists>err. PersonWithMarshmallow_load email_shape ''John'' 30 ''a@bc'' = Inl err
            \<and> is_InvalidEmailFormatError err)"
  using malformed_email_rejected_by_pydantic_and_marshmallow [of "''not-an-email''" "''John''" 30]
    malformed_email_rejected_by_pydantic_and_marshmallow [of "''a@bc''" "''John''" 30]
    no_dotted_domain_example
  by simp

section \<open>Construction without an age check, and defaults\<close>

text \<open>
  Claim C5: the dataclass and the attrs class make no positivity check. With a name that
  is not empty, construction succeeds for every age, zero and negative ages included,
  and the record holds that age.
\<close>

theorem dataclass_and_attrs_accept_any_age:
  assumes "n \<noteq> []"
  shows "PersonWithDataclass n (Some a) e
           = Inr \<lparr>name = n, age = a, email = (case e of None \<Rightarrow> [] | Some e' \<Rightarrow> e')\<rparr>
       \<and> PersonWithAttrs n (Some a) e
           = Inr \<lparr>name = n, age = a, email = (case e of None \<Rightarrow> [] | Some e' \<Rightarrow> e')\<rparr>"
  using assms by (simp add: dataclass_defs attrs_defs)

theorem dataclass_and_attrs_accept_any_age_witness:
  "''John'' \<noteq> []
   \<and> PersonWithDataclass ''John'' (Some (- 1)) (Some ''a@example.com'')
       = Inr \<lparr>name = ''John'', age = - 1, email = ''a@example.com''\<rparr>
   \<and> PersonWithAttrs ''John'' (Some (- 1)) (Some ''a@example.com'')
       = Inr \<lparr>name = ''John'', age = - 1, email = ''a@example.com''\<rparr>"
  using dataclass_and_attrs_accept_any_age [of "''John''" "- 1" "Some ''a@example.com''"]
  by simp

text \<open>
  Claim C9: the dataclass and the attrs class can be constructed from a name alone. The
  age is then 0 and the address is the empty text.
\<close>

theorem defaults_of_dataclass_and_attrs:
  assumes "n \<noteq> []"
  shows "PersonWithDataclass n None None = Inr \<lparr>name = n, age = 0, email = []\<rparr>
       \<and> PersonWithAttrs n None None = Inr \<lparr>name = n, age = 0, email = []\<rparr>"
  using assms by (simp add: dataclass_defs attrs_defs)

theorem defaults_of_dataclass_and_attrs_witness:
  "''John'' \<noteq> []
   \<and> PersonWithDataclass ''John'' None None = Inr \<lparr>name = ''John'', age = 0, email = []\<rparr>
   \<and> PersonWithAttrs ''John'' None None = Inr \<lparr>name = ''John'', age = 0, email = []\<rparr>"
  using defaults_of_dataclass_and_attrs [of "''John''"] by simp

section \<open>Assignment after construction\<close>

text \<open>
  Claim C6 as stated (a record is immutable once constructed and can never come to
  violate the invariants) does not hold: no class is frozen. A valid dataclass record
  takes the assignment \<^verbatim>\<open>p.age = -1\<close> and then holds a negative age.
\<close>

theorem assignment_after_create_breaks_invariant:
  "PersonWithDataclass ''John'' (Some 30) (Some ''a@example.com'')
     = Inr \<lparr>name = ''John'', age = 30, email = ''a@example.com''\<rparr>
   \<and> dataclass_setattr \<lparr>name = ''John'', age = 30, email = ''a@example.com''\<rparr> (Set_age (- 1))
     = Inr \<lparr>name = ''John'', age = - 1, email = ''a@example.com''\<rparr>"
  by (simp add: dataclass_defs dataclass_setattr_def setattr_def dataclass_frozen_def)

text \<open>
  Claim C6, amended: validation happens at construction only. On a dataclass, pydantic
  or attrs record an attribute assignment succeeds, replaces that field with the value
  given, whatever it is, and leaves the other two fields as they were.
\<close>

theorem assignment_replaces_field_unchecked:
  "dataclass_setattr self x = Inr (assign self x)
   \<and> pydantic_setattr self x = Inr (assign self x)
   \<and> attrs_setattr self x = Inr (assign self x)
   \<and> name (assign self (Set_name n)) = n \<and> age (assign self (Set_name n)) = age self
   \<and> email (assign self (Set_name n)) = email self
   \<and> age (assign self (Set_age a)) = a \<and> name (assign self (Set_age a)) = name self
   \<and> email (assign self (Set_age a)) = email self
   \<and> email (assign self (Set_email e)) = e \<and> name (assign self (Set_email e)) = name self
   \<and> age (assign self (Set_email e)) = age self"
  by (simp add: dataclass_setattr_def pydantic_setattr_def attrs_setattr_def setattr_def
        dataclass_frozen_def pydantic_frozen_def attrs_frozen_def)

section \<open>The debug text\<close>

text \<open>The \<^verbatim>\<open>__repr__\<close> written in the dataclass and in the pydantic model: the class name,
  then the three values joined by blanks, in parentheses, for an age within the limit of
  the conversion to text.\<close>

lemma repr_of_dataclass_and_pydantic:
  assumes "within_str_limit (age self)"
  shows "dataclass_repr self
     = ''PersonWithDataclass('' @ name self @ '' '' @ str_int (age self) @ '' '' @ email self @ '')''"
    and "pydantic_repr self
     = ''PersonWithPydantic('' @ name self @ '' '' @ str_int (age self) @ '' '' @ email self @ '')''"
  by (simp_all add: render_defs)

text \<open>
  Claim C7 (the debug text of every record variant is the type name followed by the
  three values, space-joined, in parentheses) fails for the attrs class, which is the
  only one without a \<^verbatim>\<open>__repr__\<close> of its own. For the program's sample person the debug
  text is the one attrs generates, with the attribute names and quoted values.
\<close>

theorem attrs_repr_is_generated:
  "PersonWithAttrs ''John'' (Some 30) (Some ''X7Q9u@example.com'')
     = Inr \<lparr>name = ''John'', age = 30, email = ''X7Q9u@example.com''\<rparr>
   \<and> attrs_repr \<lparr>name = ''John'', age = 30, email = ''X7Q9u@example.com''\<rparr>
     = ''PersonWithAttrs(name='John', age=30, email='X7Q9u@example.com')''
   \<and> attrs_repr \<lparr>name = ''John'', age = 30, email = ''X7Q9u@example.com''\<rparr>
     \<noteq> ''PersonWithAttrs(John 30 X7Q9u@example.com)''"
  by (simp add: attrs_defs attrs_repr_def repr_defs Let_def)

section \<open>The decorator\<close>

text \<open>With \<^verbatim>\<open>follows\<close> passed as \<^verbatim>\<open>None\<close> and any types, the call ends in one of the two
  exceptions of the wrapper and the wrapped function does not run.\<close>

lemma follows_None_never_runs_func:
  "type_check isinstance re_match None types func_name func args kwargs s
     = (if types_match isinstance args types
        then (Inl (ValueError ''Function name must match follows pattern''), s)
        else (Inl (TypeError ''Arguments must match specified types''), s))"
  by (simp add: type_check_def wrapper_def)

text \<open>
  Claim C8: a function decorated with \<^verbatim>\<open>type_check()\<close>, that is with the default
  \<^verbatim>\<open>follows = None\<close> and hence no types, raises \<^verbatim>\<open>ValueError("Function name must match
  follows pattern")\<close> on every call, whatever the arguments are, and the wrapped function
  does not run: the state of the world is the one before the call.
\<close>

theorem default_type_check_always_raises:
  "type_check isinstance re_match None [] func_name func args kwargs s
     = (Inl (ValueError ''Function name must match follows pattern''), s)"
  by (simp add: type_check_def wrapper_def types_match_def)

theorem default_type_check_always_raises_witness:
  "type_check py_isinstance literal_match None [] ''get_x'' counting_func
       [Str_arg ''a'', Int_arg 2] [(''key'', None_arg)] 0
     = (Inl (ValueError ''Function name must match follows pattern''), 0)"
  using default_type_check_always_raises
          [of py_isinstance literal_match "''get_x''" counting_func "[Str_arg ''a'', Int_arg 2]"
              "[(''key'', None_arg)]" 0]
  by simp

text \<open>The check over \<^verbatim>\<open>zip(args, types)\<close>, position by position.\<close>

lemma types_match_nth:
  "types_match isinstance args types
     \<longleftrightarrow> (\<forall>i < min (length args) (length types). isinstance (args ! i) (types ! i))"
  by (auto simp add: types_match_def list_all_length)

text \<open>
  Claim C10: the type check looks at the first \<^verbatim>\<open>min(len(args), len(types))\<close> positional
  arguments and at nothing else. It raises \<^verbatim>\<open>TypeError\<close> when one of them is not an
  instance of its type. When they all are, and the name matches the pattern, the wrapped
  function is called with all the arguments: surplus positional arguments and keyword
  arguments of any type do not make the call fail.
\<close>

theorem type_check_covers_only_zipped_arguments:
  "(types_match isinstance args types
      \<longleftrightarrow> (\<forall>i < min (length args) (length types). isinstance (args ! i) (types ! i)))
   \<and> (\<not> types_match isinstance args types
      \<longrightarrow> type_check isinstance re_match follows types func_name func args kwargs s
            = (Inl (TypeError ''Arguments must match specified types''), s))
   \<and> (types_match isinstance args types \<and> pat \<noteq> [] \<and> re_match pat func_name = Inr True
      \<longrightarrow> type_check isinstance re_match (Some pat) types func_name func args kwargs s
            = func args kwargs s)"
  by (simp add: types_match_nth type_check_def wrapper_def)

theorem type_check_covers_only_zipped_arguments_witness:
  "(\<not> py_isinstance (Str_arg ''surplus'') Int_cls)
   \<and> types_match py_isinstance [Int_arg 1, Str_arg ''surplus''] [Int_cls]
   \<and> ''get'' \<noteq> [] \<and> literal_match ''get'' ''get_x'' = Inr True
   \<and> type_check py_isinstance literal_match (Some ''get'') [Int_cls] ''get_x'' counting_func
        [Int_arg 1, Str_arg ''surplus''] [(''key'', None_arg)] 0 = (Inr 2, 1)"
  using type_check_covers_only_zipped_arguments
          [of py_isinstance "[Int_arg 1, Str_arg ''surplus'']" "[Int_cls]" literal_match "Some ''get''"
              "''get_x''" counting_func "[(''key'', None_arg)]" 0 "''get''"]
  by (simp add: literal_match_def counting_func_def types_match_def)

end
